theory Spec2Isabelle
  imports Main "HOL-Library.Sublist"
begin

section \<open>The CloudWatch retention plugin (plugin.js)\<close>

text \<open>
  The plugin runs once per deployment, on the hook \<open>before:package:finalize\<close>. Its
  method \<open>addCloudwatchPolicy\<close> reads the compiled CloudFormation template, asks
  CloudFormation whether the stack exists, and, when \<open>retainLogs\<close> is set, asks
  CloudWatch Logs which log groups exist, deletes the template's log groups that exist
  already together with the \<open>DependsOn\<close> references to them, and finally writes a
  \<open>DeletionPolicy\<close> on the log groups.

  The embedding passes the template explicitly and returns it updated, records every
  request to the provider in the order it is issued, and returns a rejected promise as
  a value of type \<open>error\<close>.
\<close>

subsection \<open>Data model\<close>

text \<open>
  The value of a resource's \<open>DependsOn\<close>. CloudFormation allows one logical name or an
  array of them; the code tests \<open>res.DependsOn && res.DependsOn.filter\<close>, which only
  an array passes.
\<close>

datatype depends = Absent | Scalar string | Names "string list"

text \<open>
  \<open>Properties\<close> of a resource. Only \<open>LogGroupName\<close> is read by the plugin; it is
  taken to be a string whenever \<open>Properties\<close> is there.
\<close>

record properties =
  LogGroupName :: string

text \<open>
  A resource of the template. \<open>Properties\<close>, \<open>DependsOn\<close> and \<open>DeletionPolicy\<close>
  may be missing. Every other field of the object is in the record's extension, so the
  functions below are defined on \<open>'a resource_scheme\<close>.
\<close>

record resource =
  Type :: string
  Properties :: "properties option"
  DependsOn :: depends
  DeletionPolicy :: "string option"

text \<open>
  The \<open>Resources\<close> object of \<open>compiledCloudFormationTemplate\<close>: the list of its own
  keys with their values, in the order \<open>Object.keys\<close> enumerates them. A missing
  \<open>Resources\<close> is read as \<open>{}\<close> by the destructuring default, the empty list here.
\<close>

type_synonym 'a resources = "(string \<times> 'a resource_scheme) list"

text \<open>
  The \<open>providerError\<close> of a rejection, the error object of the AWS SDK. Line 99 reads
  its \<open>message\<close>, which is \<open>None\<close> when the property is missing or \<open>null\<close>.
\<close>

record provider_error =
  message :: "string option"

text \<open>
  The error a rejected \<open>provider.request\<close> carries: \<open>statusCode\<close> and
  \<open>providerError\<close>, either of which may be missing.
\<close>

record aws_error =
  statusCode :: "int option"
  providerError :: "provider_error option"

text \<open>
  What a rejected promise of \<open>addCloudwatchPolicy\<close> carries: the string of the
  provider check, the error of \<open>describeStacks\<close> passed on by the \<open>catch\<close> handler,
  the error of \<open>describeLogGroups\<close>, or a \<open>TypeError\<close>: the one that
  \<open>group.Properties.LogGroupName\<close> throws on a log group without \<open>Properties\<close>, or
  the one that \<open>error.providerError.message.includes\<close> throws in the \<open>catch\<close>
  handler on a \<open>providerError\<close> without \<open>message\<close>.
\<close>

datatype error =
    UnsupportedProviderError string
  | StackQueryError aws_error
  | InventoryQueryError aws_error
  | TypeError

text \<open>A call of \<open>provider.request\<close>, with the service method and its one parameter.\<close>

datatype request = DescribeStacks string | DescribeLogGroups string

text \<open>
  What the plugin reads from \<open>serverless\<close>: \<open>service.provider.name\<close>,
  \<open>provider.naming.getStackName()\<close>, \<open>custom.cloudwatchPolicy.retainLogs\<close>
  (false when missing), and the two service methods reached through
  \<open>provider.request\<close>, as functions from the parameter to the settled promise:
  \<open>Inl\<close> a rejection, \<open>Inr\<close> the response. For \<open>describeLogGroups\<close> the response
  is its \<open>logGroups\<close> field, which may be missing, as the list of the groups'
  \<open>logGroupName\<close>.
\<close>

record plugin =
  providerName :: string
  stackName :: string
  retainLogs :: bool
  describeStacks :: "string \<Rightarrow> aws_error + unit"
  describeLogGroups :: "string \<Rightarrow> aws_error + string list option"

text \<open>
  The settled promise of \<open>addCloudwatchPolicy\<close> together with the template as the
  run leaves it and the requests issued, oldest first.
\<close>

record 'a outcome =
  result :: "error + unit"
  template :: "'a resources"
  requests :: "request list"

subsection \<open>Operations on the \<open>Resources\<close> object\<close>

text \<open>\<open>delete Resources[key]\<close>.\<close>

definition deleteKey :: "string \<Rightarrow> 'a resources \<Rightarrow> 'a resources" where
  "deleteKey key Resources = filter (\<lambda>(k, res). k \<noteq> key) Resources"

text \<open>
  An assignment to a field of the object stored under \<open>key\<close>: \<open>f\<close> is the change to
  the object. Nothing happens when the key is not in \<open>Resources\<close>.
\<close>

definition assignAt :: "string \<Rightarrow> ('a resource_scheme \<Rightarrow> 'a resource_scheme) \<Rightarrow> 'a resources \<Rightarrow> 'a resources" where
  "assignAt key f Resources = map (\<lambda>(k, res). if k = key then (k, f res) else (k, res)) Resources"

subsection \<open>\<open>String.prototype.includes\<close>\<close>

fun stringIncludes :: "string \<Rightarrow> string \<Rightarrow> bool" where
  "stringIncludes [] search = (search = [])"
| "stringIncludes (c # cs) search = (prefix search (c # cs) \<or> stringIncludes cs search)"

subsection \<open>\<open>_removeDuplicateLogGroups\<close>\<close>

text \<open>
  Lines 43 to 46: \<open>logGroupLookup[group.Properties.LogGroupName] = key\<close> for every
  collected log group, in order, so a later group with the same name overwrites an
  earlier one. Reading \<open>LogGroupName\<close> of a missing \<open>Properties\<close> throws. Assigning
  a string to the property \<open>__proto__\<close> of an object literal reaches the setter
  inherited from \<open>Object.prototype\<close>, which ignores a value that is not an object: the
  lookup gets no entry.
\<close>

fun buildLookup :: "(string \<times> 'a resource_scheme) list \<Rightarrow> (string \<rightharpoonup> string) \<Rightarrow> error + (string \<rightharpoonup> string)" where
  "buildLookup [] logGroupLookup = Inr logGroupLookup"
| "buildLookup ((key, logGroup) # logGroups) logGroupLookup =
     (case Properties logGroup of
        None \<Rightarrow> Inl TypeError
      | Some props \<Rightarrow>
          buildLookup logGroups
            (if LogGroupName props = ''__proto__'' then logGroupLookup
             else logGroupLookup(LogGroupName props \<mapsto> key)))"

text \<open>
  Lines 51 to 59: the set of the keys found in the lookup for the names reported by
  \<open>describeLogGroups\<close>. For a name that only \<open>Object.prototype\<close> has (\<open>toString\<close>,
  \<open>__proto__\<close>, ...) the test \<open>in\<close> succeeds and the set receives a function or an
  object; no key of \<open>Resources\<close> and no entry of a \<open>DependsOn\<close> equals it, so the
  set of strings leaves it out.
\<close>

definition duplicateKeys :: "(string \<rightharpoonup> string) \<Rightarrow> string list \<Rightarrow> string set" where
  "duplicateKeys logGroupLookup existingLogs =
     fold (\<lambda>logGroupName duplicates.
             case logGroupLookup logGroupName of
               Some key \<Rightarrow> insert key duplicates
             | None \<Rightarrow> duplicates)
          existingLogs {}"

text \<open>Lines 68 to 70: an array \<open>DependsOn\<close> loses the entries that are duplicates.\<close>

definition filterDependsOn :: "string set \<Rightarrow> 'a resource_scheme \<Rightarrow> 'a resource_scheme" where
  "filterDependsOn duplicates res =
     (case DependsOn res of
        Names ds \<Rightarrow> res\<lparr>DependsOn := Names (filter (\<lambda>d. d \<notin> duplicates) ds)\<rparr>
      | _ \<Rightarrow> res)"

text \<open>Lines 64 to 71: the body of the loop over the keys.\<close>

definition purgeKey :: "string set \<Rightarrow> string \<Rightarrow> 'a resources \<Rightarrow> 'a resources" where
  "purgeKey duplicates key Resources =
     (if key \<in> duplicates then deleteKey key Resources
      else assignAt key (filterDependsOn duplicates) Resources)"

text \<open>
  Lines 62 to 72: the loop runs over \<open>Object.keys(Resources)\<close>, taken once before the
  first iteration, and changes \<open>Resources\<close> as it goes.
\<close>

definition purge :: "string set \<Rightarrow> 'a resources \<Rightarrow> 'a resources" where
  "purge duplicates Resources = fold (purgeKey duplicates) (map fst Resources) Resources"

definition logGroupNamePrefix :: "plugin \<Rightarrow> string" where
  "logGroupNamePrefix p = ''/aws/lambda/'' @ stackName p"

text \<open>
  The whole method. The lookup is built before the request is issued, so a
  \<open>TypeError\<close> there leaves no request behind; a rejected \<open>describeLogGroups\<close> skips
  both \<open>then\<close> callbacks.
\<close>

definition removeDuplicateLogGroups :: "plugin \<Rightarrow> (string \<times> 'a resource_scheme) list \<Rightarrow> 'a resources \<Rightarrow> 'a outcome" where
  "removeDuplicateLogGroups p logGroups Resources =
     (case buildLookup logGroups Map.empty of
        Inl e \<Rightarrow> \<lparr>result = Inl e, template = Resources, requests = []\<rparr>
      | Inr logGroupLookup \<Rightarrow>
          (case describeLogGroups p (logGroupNamePrefix p) of
             Inl e \<Rightarrow>
               \<lparr>result = Inl (InventoryQueryError e), template = Resources,
                requests = [DescribeLogGroups (logGroupNamePrefix p)]\<rparr>
           | Inr existingLogs \<Rightarrow>
               \<lparr>result = Inr (),
                template = purge (duplicateKeys logGroupLookup
                                    (case existingLogs of None \<Rightarrow> [] | Some groups \<Rightarrow> groups))
                                 Resources,
                requests = [DescribeLogGroups (logGroupNamePrefix p)]\<rparr>))"

subsection \<open>\<open>addCloudwatchPolicy\<close>\<close>

text \<open>Lines 84 to 91: the resources whose \<open>Type\<close> is that of a log group, with their keys.\<close>

definition collectLogGroups :: "'a resources \<Rightarrow> (string \<times> 'a resource_scheme) list" where
  "collectLogGroups Resources = filter (\<lambda>(key, res). Type res = ''AWS::Logs::LogGroup'') Resources"

text \<open>
  Line 99, the condition of the \<open>catch\<close> handler:
  \<open>error.statusCode === 400 && error.providerError &&
  error.providerError.message.includes('does not exist')\<close>. The operands are
  evaluated from the left and \<open>&&\<close> stops at the first that is not truthy. With
  status 400 and a \<open>providerError\<close> the third operand is evaluated, and calling
  \<open>includes\<close> on a missing \<open>message\<close> throws a \<open>TypeError\<close> inside the handler.
  \<open>Inr True\<close> means that the stack is not there yet.
\<close>

definition stackDoesNotExist :: "aws_error \<Rightarrow> error + bool" where
  "stackDoesNotExist e =
     (if statusCode e = Some 400 then
        (case providerError e of
           None \<Rightarrow> Inr False
         | Some sdkError \<Rightarrow>
             (case message sdkError of
                None \<Rightarrow> Inl TypeError
              | Some msg \<Rightarrow> Inr (stringIncludes msg ''does not exist'')))
      else Inr False)"

text \<open>Line 111: \<open>log.DeletionPolicy = retainLogs ? 'Retain' : 'Delete'\<close>.\<close>

definition setPolicy :: "bool \<Rightarrow> 'a resource_scheme \<Rightarrow> 'a resource_scheme" where
  "setPolicy retain res = res\<lparr>DeletionPolicy := Some (if retain then ''Retain'' else ''Delete'')\<rparr>"

text \<open>
  Lines 110 to 112: the assignment is made for every collected log group.
  \<open>log\<close> is the object that \<open>Resources\<close> held under the group's key when the groups
  were collected; objects are changed in place and never replaced, so the write is
  seen under that key if the key is still there, and is lost with the object if the
  purge deleted the key.
\<close>

definition applyPolicy :: "bool \<Rightarrow> (string \<times> 'a resource_scheme) list \<Rightarrow> 'a resources \<Rightarrow> 'a resources" where
  "applyPolicy retain logGroups Resources =
     fold (\<lambda>(key, logGroup). assignAt key (setPolicy retain)) logGroups Resources"

text \<open>
  Lines 107 to 113, the two \<open>then\<close> callbacks that run once \<open>describeStacks\<close> has
  settled and its rejection, if any, was found to mean a missing stack.
\<close>

definition afterDescribeStacks :: "plugin \<Rightarrow> (string \<times> 'a resource_scheme) list \<Rightarrow> 'a resources \<Rightarrow> 'a outcome" where
  "afterDescribeStacks p logGroups Resources =
     (let dedup = (if retainLogs p then removeDuplicateLogGroups p logGroups Resources
                   else \<lparr>result = Inr (), template = Resources, requests = []\<rparr>)
      in case result dedup of
           Inl e \<Rightarrow> dedup
         | Inr u \<Rightarrow> dedup\<lparr>template := applyPolicy (retainLogs p) logGroups (template dedup)\<rparr>)"

text \<open>
  Lines 76 to 114. The \<open>catch\<close> handler of lines 98 to 106 resolves when the
  rejection means a missing stack and passes the error on otherwise; an exception
  thrown by its condition rejects the promise the handler returns, so the \<open>then\<close>
  callbacks are skipped as well.
\<close>

definition addCloudwatchPolicy :: "plugin \<Rightarrow> 'a resources \<Rightarrow> 'a outcome" where
  "addCloudwatchPolicy p Resources =
     (if providerName p \<noteq> ''aws'' then
        \<lparr>result = Inl (UnsupportedProviderError ''Cannot add Cloudwatch Policy to non-aws provider''),
         template = Resources, requests = []\<rparr>
      else
        let logGroups = collectLogGroups Resources;
            probe = DescribeStacks (stackName p);
            continue = (let rest = afterDescribeStacks p logGroups Resources
                        in rest\<lparr>requests := probe # requests rest\<rparr>)
        in case describeStacks p (stackName p) of
             Inl e \<Rightarrow>
               (case stackDoesNotExist e of
                  Inl thrown \<Rightarrow> \<lparr>result = Inl thrown, template = Resources, requests = [probe]\<rparr>
                | Inr firstCreation \<Rightarrow>
                    if firstCreation then continue
                    else \<lparr>result = Inl (StackQueryError e), template = Resources, requests = [probe]\<rparr>)
           | Inr response \<Rightarrow> continue)"

subsection \<open>Notions the properties are stated with\<close>

text \<open>
  The names the inventory reports to this plugin: the \<open>logGroupName\<close>s of a
  fulfilled \<open>describeLogGroups\<close>, none when it is rejected or has no \<open>logGroups\<close>.
\<close>

definition reportedNames :: "plugin \<Rightarrow> string list" where
  "reportedNames p =
     (case describeLogGroups p (logGroupNamePrefix p) of
        Inr (Some groups) \<Rightarrow> groups
      | _ \<Rightarrow> [])"

text \<open>
  The keys a run marks as duplicates: the set of lines 51 to 59 when \<open>retainLogs\<close> is
  set and the lookup could be built, no key otherwise.
\<close>

definition markedDuplicates :: "plugin \<Rightarrow> 'a resources \<Rightarrow> string set" where
  "markedDuplicates p Resources =
     (if retainLogs p then
        (case buildLookup (collectLogGroups Resources) Map.empty of
           Inr logGroupLookup \<Rightarrow> duplicateKeys logGroupLookup (reportedNames p)
         | Inl e \<Rightarrow> {})
      else {})"

text \<open>The resource declares the log group name \<open>n\<close>.\<close>

definition declaresName :: "string \<Rightarrow> 'a resource_scheme \<Rightarrow> bool" where
  "declaresName n res = (case Properties res of Some props \<Rightarrow> LogGroupName props = n | None \<Rightarrow> False)"

text \<open>The log groups of the template that declare the name \<open>n\<close>, in the template's order.\<close>

definition candidatesNamed :: "string \<Rightarrow> 'a resources \<Rightarrow> 'a resources" where
  "candidatesNamed n Resources =
     filter (\<lambda>(key, res). Type res = ''AWS::Logs::LogGroup'' \<and> declaresName n res) Resources"

text \<open>
  The entries of a resource's \<open>DependsOn\<close> sequence; a resource whose \<open>DependsOn\<close>
  is missing or is not a sequence has none.
\<close>

definition dependsOnEntries :: "'a resource_scheme \<Rightarrow> string list" where
  "dependsOnEntries res = (case DependsOn res of Names ds \<Rightarrow> ds | _ \<Rightarrow> [])"

text \<open>Every entry of every \<open>DependsOn\<close> sequence is a key of the template.\<close>

definition danglingFree :: "'a resources \<Rightarrow> bool" where
  "danglingFree Resources =
     (\<forall>(key, res) \<in> set Resources. \<forall>d \<in> set (dependsOnEntries res). d \<in> fst ` set Resources)"

text \<open>
  What a run may change of a resource that stays: \<open>res'\<close> is \<open>res\<close> except that a
  \<open>DependsOn\<close> sequence may have lost entries and, on a log group only, the
  \<open>DeletionPolicy\<close> may differ.
\<close>

definition framed :: "'a resource_scheme \<Rightarrow> 'a resource_scheme \<Rightarrow> bool" where
  "framed res res' =
     (Type res' = Type res \<and> Properties res' = Properties res \<and> resource.more res' = resource.more res \<and>
      (DependsOn res' = DependsOn res \<or>
       (case (DependsOn res, DependsOn res') of
          (Names ds, Names ds') \<Rightarrow> subseq ds' ds
        | _ \<Rightarrow> False)) \<and>
      (Type res \<noteq> ''AWS::Logs::LogGroup'' \<longrightarrow> DeletionPolicy res' = DeletionPolicy res))"

text \<open>
  The state of the loop of lines 63 to 72 once the keys in \<open>seen\<close> have been visited
  (used in the proofs only).
\<close>

definition keepPurged :: "string set \<Rightarrow> string set \<Rightarrow> 'a resources \<Rightarrow> 'a resources" where
  "keepPurged duplicates seen Resources =
     map (\<lambda>(k, res). if k \<in> seen then (k, filterDependsOn duplicates res) else (k, res))
         (filter (\<lambda>(k, res). \<not> (k \<in> duplicates \<and> k \<in> seen)) Resources)"

subsection \<open>The template of the test suite\<close>

text \<open>Two log groups and two functions, as \<open>test/plugin.spec.js\<close> sets them up.\<close>

definition specTemplate :: "unit resources" where
  "specTemplate =
     [(''FirstLogGroup'',
         \<lparr>Type = ''AWS::Logs::LogGroup'',
          Properties = Some \<lparr>LogGroupName = ''/aws/lambda/first-log-group''\<rparr>,
          DependsOn = Absent, DeletionPolicy = None\<rparr>),
      (''SecondLogGroup'',
         \<lparr>Type = ''AWS::Logs::LogGroup'',
          Properties = Some \<lparr>LogGroupName = ''/aws/lambda/second-log-group''\<rparr>,
          DependsOn = Absent, DeletionPolicy = None\<rparr>),
      (''FirstFunction'',
         \<lparr>Type = ''AWS::Lambda::Function'', Properties = None,
          DependsOn = Names [''FirstLogGroup'', ''LambdaExecutionRole''], DeletionPolicy = None\<rparr>),
      (''SecondFunction'',
         \<lparr>Type = ''AWS::Lambda::Function'', Properties = None,
          DependsOn = Names [''SecondLogGroup'', ''LambdaExecutionRole''], DeletionPolicy = None\<rparr>)]"

text \<open>
  The plugin of the test \<open>Stack Update\<close>, \<open>removes any pre-existing LogGroups\<close>: the
  stack exists and CloudWatch Logs reports the first log group.
\<close>

definition specPlugin :: plugin where
  "specPlugin =
     \<lparr>providerName = ''aws'', stackName = ''mock-test-stack'', retainLogs = True,
      describeStacks = (\<lambda>name. Inr ()),
      describeLogGroups = (\<lambda>pre. Inr (Some [''/aws/lambda/first-log-group'']))\<rparr>"

text \<open>The template the test expects after the run.\<close>

definition specTemplateAfter :: "unit resources" where
  "specTemplateAfter =
     [(''SecondLogGroup'',
         \<lparr>Type = ''AWS::Logs::LogGroup'',
          Properties = Some \<lparr>LogGroupName = ''/aws/lambda/second-log-group''\<rparr>,
          DependsOn = Absent, DeletionPolicy = Some ''Retain''\<rparr>),
      (''FirstFunction'',
         \<lparr>Type = ''AWS::Lambda::Function'', Properties = None,
          DependsOn = Names [''LambdaExecutionRole''], DeletionPolicy = None\<rparr>),
      (''SecondFunction'',
         \<lparr>Type = ''AWS::Lambda::Function'', Properties = None,
          DependsOn = Names [''SecondLogGroup'', ''LambdaExecutionRole''], DeletionPolicy = None\<rparr>)]"

text \<open>The same plugin under a provider that is not \<open>aws\<close>.\<close>

definition azurePlugin :: plugin where
  "azurePlugin =
     \<lparr>providerName = ''azure'', stackName = ''mock-test-stack'', retainLogs = True,
      describeStacks = (\<lambda>name. Inr ()),
      describeLogGroups = (\<lambda>pre. Inr (Some [''/aws/lambda/first-log-group'']))\<rparr>"

text \<open>
  The rejection of the tests of \<open>Initial Stack Creation\<close>, one that does not mean a
  missing stack, and one with status 400 whose \<open>providerError\<close> has no \<open>message\<close>.
\<close>

definition firstDeployError :: aws_error where
  "firstDeployError =
     \<lparr>statusCode = Some 400, providerError = Some \<lparr>message = Some ''Resource does not exist''\<rparr>\<rparr>"

definition serverError :: aws_error where
  "serverError =
     \<lparr>statusCode = Some 500, providerError = Some \<lparr>message = Some ''Internal failure''\<rparr>\<rparr>"

definition noMessageError :: aws_error where
  "noMessageError = \<lparr>statusCode = Some 400, providerError = Some \<lparr>message = None\<rparr>\<rparr>"

definition firstDeployPlugin :: plugin where
  "firstDeployPlugin =
     \<lparr>providerName = ''aws'', stackName = ''mock-test-stack'', retainLogs = True,
      describeStacks = (\<lambda>name. Inl firstDeployError),
      describeLogGroups = (\<lambda>pre. Inr (Some [''/aws/lambda/first-log-group'']))\<rparr>"

definition brokenStackPlugin :: plugin where
  "brokenStackPlugin =
     \<lparr>providerName = ''aws'', stackName = ''mock-test-stack'', retainLogs = True,
      describeStacks = (\<lambda>name. Inl serverError),
      describeLogGroups = (\<lambda>pre. Inr (Some [''/aws/lambda/first-log-group'']))\<rparr>"

definition noMessagePlugin :: plugin where
  "noMessagePlugin =
     \<lparr>providerName = ''aws'', stackName = ''mock-test-stack'', retainLogs = True,
      describeStacks = (\<lambda>name. Inl noMessageError),
      describeLogGroups = (\<lambda>pre. Inr (Some [''/aws/lambda/first-log-group'']))\<rparr>"

text \<open>A plugin whose stack exists and whose \<open>describeLogGroups\<close> is rejected.\<close>

definition brokenInventoryPlugin :: plugin where
  "brokenInventoryPlugin =
     \<lparr>providerName = ''aws'', stackName = ''mock-test-stack'', retainLogs = True,
      describeStacks = (\<lambda>name. Inr ()),
      describeLogGroups = (\<lambda>pre. Inl serverError)\<rparr>"

text \<open>
  The plugin of the test \<open>Do not retain\<close>, \<open>leaves all references to all LogGroups if
  some exist\<close>, and the template that test expects.
\<close>

definition doNotRetainPlugin :: plugin where
  "doNotRetainPlugin =
     \<lparr>providerName = ''aws'', stackName = ''mock-test-stack'', retainLogs = False,
      describeStacks = (\<lambda>name. Inr ()),
      describeLogGroups = (\<lambda>pre. Inr (Some [''/aws/lambda/first-log-group'']))\<rparr>"

definition doNotRetainAfter :: "unit resources" where
  "doNotRetainAfter =
     [(''FirstLogGroup'',
         \<lparr>Type = ''AWS::Logs::LogGroup'',
          Properties = Some \<lparr>LogGroupName = ''/aws/lambda/first-log-group''\<rparr>,
          DependsOn = Absent, DeletionPolicy = Some ''Delete''\<rparr>),
      (''SecondLogGroup'',
         \<lparr>Type = ''AWS::Logs::LogGroup'',
          Properties = Some \<lparr>LogGroupName = ''/aws/lambda/second-log-group''\<rparr>,
          DependsOn = Absent, DeletionPolicy = Some ''Delete''\<rparr>),
      (''FirstFunction'',
         \<lparr>Type = ''AWS::Lambda::Function'', Properties = None,
          DependsOn = Names [''FirstLogGroup'', ''LambdaExecutionRole''], DeletionPolicy = None\<rparr>),
      (''SecondFunction'',
         \<lparr>Type = ''AWS::Lambda::Function'', Properties = None,
          DependsOn = Names [''SecondLogGroup'', ''LambdaExecutionRole''], DeletionPolicy = None\<rparr>)]"

text \<open>The second log group as the runs with \<open>retainLogs\<close> leave it.\<close>

definition secondLogGroupRetained :: resource where
  "secondLogGroupRetained =
     \<lparr>Type = ''AWS::Logs::LogGroup'',
      Properties = Some \<lparr>LogGroupName = ''/aws/lambda/second-log-group''\<rparr>,
      DependsOn = Absent, DeletionPolicy = Some ''Retain''\<rparr>"

text \<open>The first log group as the run without \<open>retainLogs\<close> leaves it.\<close>

definition firstLogGroupDeleted :: resource where
  "firstLogGroupDeleted =
     \<lparr>Type = ''AWS::Logs::LogGroup'',
      Properties = Some \<lparr>LogGroupName = ''/aws/lambda/first-log-group''\<rparr>,
      DependsOn = Absent, DeletionPolicy = Some ''Delete''\<rparr>"

text \<open>Resources of the template of the test suite, before and after that run.\<close>

definition firstFunction :: resource where
  "firstFunction =
     \<lparr>Type = ''AWS::Lambda::Function'', Properties = None,
      DependsOn = Names [''FirstLogGroup'', ''LambdaExecutionRole''], DeletionPolicy = None\<rparr>"

definition firstFunctionAfter :: resource where
  "firstFunctionAfter =
     \<lparr>Type = ''AWS::Lambda::Function'', Properties = None,
      DependsOn = Names [''LambdaExecutionRole''], DeletionPolicy = None\<rparr>"

definition firstLogGroup :: resource where
  "firstLogGroup =
     \<lparr>Type = ''AWS::Logs::LogGroup'',
      Properties = Some \<lparr>LogGroupName = ''/aws/lambda/first-log-group''\<rparr>,
      DependsOn = Absent, DeletionPolicy = None\<rparr>"

subsection \<open>Two log groups with one name\<close>

text \<open>
  A template whose two log groups declare the same name, a plugin whose inventory
  reports that name, and the template its run leaves.
\<close>

definition twinTemplate :: "unit resources" where
  "twinTemplate =
     [(''FirstLogGroup'',
         \<lparr>Type = ''AWS::Logs::LogGroup'',
          Properties = Some \<lparr>LogGroupName = ''/aws/lambda/shared-log-group''\<rparr>,
          DependsOn = Absent, DeletionPolicy = None\<rparr>),
      (''SecondLogGroup'',
         \<lparr>Type = ''AWS::Logs::LogGroup'',
          Properties = Some \<lparr>LogGroupName = ''/aws/lambda/shared-log-group''\<rparr>,
          DependsOn = Absent, DeletionPolicy = None\<rparr>)]"

definition twinPlugin :: plugin where
  "twinPlugin =
     \<lparr>providerName = ''aws'', stackName = ''mock-test-stack'', retainLogs = True,
      describeStacks = (\<lambda>name. Inr ()),
      describeLogGroups = (\<lambda>pre. Inr (Some [''/aws/lambda/shared-log-group'']))\<rparr>"

definition twinTemplateAfter :: "unit resources" where
  "twinTemplateAfter =
     [(''FirstLogGroup'',
         \<lparr>Type = ''AWS::Logs::LogGroup'',
          Properties = Some \<lparr>LogGroupName = ''/aws/lambda/shared-log-group''\<rparr>,
          DependsOn = Absent, DeletionPolicy = Some ''Retain''\<rparr>)]"

section \<open>Properties\<close>

subsection \<open>The test suite's scenario\<close>

lemmas run_defs =
  addCloudwatchPolicy_def afterDescribeStacks_def removeDuplicateLogGroups_def
  collectLogGroups_def purge_def purgeKey_def deleteKey_def assignAt_def filterDependsOn_def
  duplicateKeys_def applyPolicy_def setPolicy_def logGroupNamePrefix_def stackDoesNotExist_def

lemma specPlugin_run:
  "addCloudwatchPolicy specPlugin specTemplate =
     \<lparr>result = Inr (), template = specTemplateAfter,
      requests = [DescribeStacks ''mock-test-stack'',
                  DescribeLogGroups ''/aws/lambda/mock-test-stack'']\<rparr>"
  by (simp add: run_defs specPlugin_def specTemplate_def specTemplateAfter_def)

lemma firstDeployError_class: "stackDoesNotExist firstDeployError = Inr True"
  by (simp add: stackDoesNotExist_def firstDeployError_def)

lemma serverError_class: "stackDoesNotExist serverError = Inr False"
  by (simp add: stackDoesNotExist_def serverError_def)

lemma noMessageError_class: "stackDoesNotExist noMessageError = Inl TypeError"
  by (simp add: stackDoesNotExist_def noMessageError_def)

lemma brokenInventoryPlugin_run:
  "addCloudwatchPolicy brokenInventoryPlugin specTemplate =
     \<lparr>result = Inl (InventoryQueryError serverError), template = specTemplate,
      requests = [DescribeStacks ''mock-test-stack'',
                  DescribeLogGroups ''/aws/lambda/mock-test-stack'']\<rparr>"
  by (simp add: run_defs brokenInventoryPlugin_def specTemplate_def)

lemma firstDeployPlugin_run:
  "addCloudwatchPolicy firstDeployPlugin specTemplate =
     \<lparr>result = Inr (), template = specTemplateAfter,
      requests = [DescribeStacks ''mock-test-stack'',
                  DescribeLogGroups ''/aws/lambda/mock-test-stack'']\<rparr>"
  by (simp add: run_defs firstDeployPlugin_def firstDeployError_def specTemplate_def specTemplateAfter_def)

lemma doNotRetainPlugin_run:
  "addCloudwatchPolicy doNotRetainPlugin specTemplate =
     \<lparr>result = Inr (), template = doNotRetainAfter,
      requests = [DescribeStacks ''mock-test-stack'']\<rparr>"
  by (simp add: run_defs doNotRetainPlugin_def specTemplate_def doNotRetainAfter_def)

lemma twinPlugin_run:
  "addCloudwatchPolicy twinPlugin twinTemplate =
     \<lparr>result = Inr (), template = twinTemplateAfter,
      requests = [DescribeStacks ''mock-test-stack'',
                  DescribeLogGroups ''/aws/lambda/mock-test-stack'']\<rparr>"
  by (simp add: run_defs twinPlugin_def twinTemplate_def twinTemplateAfter_def)

lemma twin_candidates:
  "map fst (candidatesNamed ''/aws/lambda/shared-log-group'' twinTemplate) = [''FirstLogGroup'', ''SecondLogGroup'']"
  by (simp add: candidatesNamed_def declaresName_def twinTemplate_def)

text \<open>\<open>stringIncludes\<close> is the contiguous-sublist relation of the library.\<close>

lemma stringIncludes_sublist: "stringIncludes s search \<longleftrightarrow> sublist search s"
  by (induction s) (auto simp: sublist_Cons_right)

subsection \<open>The loop of the purge as a filter and a map\<close>

lemma filterDependsOn_idem:
  "filterDependsOn duplicates (filterDependsOn duplicates res) = filterDependsOn duplicates res"
  by (cases "DependsOn res") (simp_all add: filterDependsOn_def)

lemma purgeKey_keepPurged:
  "purgeKey duplicates key Resources = keepPurged duplicates {key} Resources"
  unfolding purgeKey_def keepPurged_def deleteKey_def assignAt_def
  by (induction Resources) auto

lemma keepPurged_compose:
  "keepPurged duplicates B (keepPurged duplicates A Resources) = keepPurged duplicates (A \<union> B) Resources"
  unfolding keepPurged_def
  by (induction Resources) (auto simp: filterDependsOn_idem split: if_splits)

lemma fold_purgeKey:
  "fold (purgeKey duplicates) keys (keepPurged duplicates A Resources) = keepPurged duplicates (A \<union> set keys) Resources"
proof (induction keys arbitrary: A)
  case Nil
  show ?case by simp
next
  case (Cons key keys)
  have "fold (purgeKey duplicates) (key # keys) (keepPurged duplicates A Resources)
        = fold (purgeKey duplicates) keys (keepPurged duplicates (A \<union> {key}) Resources)"
    by (simp add: purgeKey_keepPurged keepPurged_compose)
  also have "\<dots> = keepPurged duplicates ((A \<union> {key}) \<union> set keys) Resources"
    by (rule Cons.IH)
  finally show ?case by (simp add: Un_commute insert_commute Un_assoc)
qed

lemma keepPurged_empty: "keepPurged duplicates {} Resources = Resources"
  unfolding keepPurged_def by (induction Resources) auto

lemma purge_eq:
  "purge duplicates Resources =
     map (\<lambda>(k, res). (k, filterDependsOn duplicates res))
         (filter (\<lambda>(k, res). k \<notin> duplicates) Resources)"
proof -
  have "purge duplicates Resources = keepPurged duplicates (fst ` set Resources) Resources"
    using fold_purgeKey [of duplicates "map fst Resources" "{}" Resources]
    by (simp add: purge_def keepPurged_empty)
  also have "\<dots> = map (\<lambda>(k, res). (k, filterDependsOn duplicates res))
         (filter (\<lambda>(k, res). k \<notin> duplicates) Resources)"
    unfolding keepPurged_def
    by (intro arg_cong2 [where f = map] map_cong filter_cong refl ext) (auto simp: rev_image_eqI)
  finally show ?thesis .
qed

lemma purge_empty: "purge {} Resources = Resources"
proof -
  have "filterDependsOn {} res = res" for res :: "'a resource_scheme"
    by (cases "DependsOn res") (simp_all add: filterDependsOn_def)
  then show ?thesis
    by (simp add: purge_eq split_def)
qed

subsection \<open>The policy loop as a map\<close>

lemma applyPolicy_eq:
  "applyPolicy retain logGroups Resources =
     map (\<lambda>(k, res). if k \<in> fst ` set logGroups then (k, setPolicy retain res) else (k, res)) Resources"
proof (induction logGroups rule: rev_induct)
  case Nil
  show ?case by (simp add: applyPolicy_def)
next
  case (snoc entry logGroups)
  obtain key lg where entry: "entry = (key, lg)" by (cases entry)
  have "applyPolicy retain (logGroups @ [entry]) Resources
        = assignAt key (setPolicy retain) (applyPolicy retain logGroups Resources)"
    by (simp add: applyPolicy_def entry)
  also have "\<dots> = map (\<lambda>(k, res). if k \<in> fst ` set (logGroups @ [entry]) then (k, setPolicy retain res) else (k, res)) Resources"
    unfolding snoc.IH assignAt_def entry
    by (auto simp: setPolicy_def)
  finally show ?case .
qed

subsection \<open>The template a run leaves\<close>

lemma run_failure:
  "result (addCloudwatchPolicy p Resources) = Inl e \<Longrightarrow> template (addCloudwatchPolicy p Resources) = Resources"
  by (auto simp: addCloudwatchPolicy_def afterDescribeStacks_def removeDuplicateLogGroups_def Let_def
           split: if_splits sum.splits)

lemma run_success:
  "result (addCloudwatchPolicy p Resources) = Inr () \<Longrightarrow>
   template (addCloudwatchPolicy p Resources) =
     applyPolicy (retainLogs p) (collectLogGroups Resources) (purge (markedDuplicates p Resources) Resources)"
  by (auto simp: addCloudwatchPolicy_def afterDescribeStacks_def removeDuplicateLogGroups_def Let_def
                 markedDuplicates_def reportedNames_def purge_empty
           split: if_splits sum.splits option.splits)

subsection \<open>The lookup and the set of duplicates\<close>

lemma duplicateKeys_fold:
  "fold (\<lambda>logGroupName duplicates.
             case logGroupLookup logGroupName of
               Some key \<Rightarrow> insert key duplicates
             | None \<Rightarrow> duplicates) names A
   = A \<union> {key. \<exists>n \<in> set names. logGroupLookup n = Some key}"
  by (induction names arbitrary: A) (auto split: option.splits)

lemma duplicateKeys_eq:
  "duplicateKeys logGroupLookup names = {key. \<exists>n \<in> set names. logGroupLookup n = Some key}"
  by (simp add: duplicateKeys_def duplicateKeys_fold)

lemma buildLookup_Properties:
  "buildLookup logGroups m = Inr logGroupLookup \<Longrightarrow> (key, res) \<in> set logGroups \<Longrightarrow> Properties res \<noteq> None"
  by (induction logGroups m rule: buildLookup.induct) (auto split: option.splits)

lemma buildLookup_succeeds:
  "\<forall>(key, res) \<in> set logGroups. Properties res \<noteq> None \<Longrightarrow>
   \<exists>logGroupLookup. buildLookup logGroups m = Inr logGroupLookup"
proof (induction logGroups arbitrary: m)
  case Nil
  show ?case by simp
next
  case (Cons entry logGroups)
  obtain key logGroup where entry: "entry = (key, logGroup)" by (cases entry)
  from Cons.prems entry obtain props where props: "Properties logGroup = Some props"
    by auto
  from Cons.prems have "\<forall>(key, res) \<in> set logGroups. Properties res \<noteq> None"
    by simp
  from Cons.IH [OF this] show ?case
    by (simp add: entry props)
qed

lemma buildLookup_last:
  "buildLookup logGroups m = Inr logGroupLookup \<Longrightarrow>
   logGroupLookup n =
     (if n = ''__proto__'' \<or> filter (\<lambda>(key, res). declaresName n res) logGroups = [] then m n
      else Some (fst (last (filter (\<lambda>(key, res). declaresName n res) logGroups))))"
proof (induction logGroups m rule: buildLookup.induct)
  case (1 m)
  then show ?case by simp
next
  case (2 key logGroup logGroups m)
  from "2.prems" obtain props where props: "Properties logGroup = Some props"
    by (auto split: option.splits)
  let ?m' = "if LogGroupName props = ''__proto__'' then m else m(LogGroupName props \<mapsto> key)"
  from "2.prems" props have run: "buildLookup logGroups ?m' = Inr logGroupLookup"
    by simp
  note IH = "2.IH" [OF props run]
  have declared: "declaresName n logGroup \<longleftrightarrow> LogGroupName props = n"
    by (simp add: declaresName_def props)
  show ?case
    unfolding IH by (simp add: declared)
qed

lemma buildLookup_range:
  assumes "buildLookup logGroups Map.empty = Inr logGroupLookup"
    and "logGroupLookup n = Some key"
  shows "\<exists>res. (key, res) \<in> set logGroups \<and> declaresName n res"
proof -
  let ?cs = "filter (\<lambda>(key, res). declaresName n res) logGroups"
  from assms buildLookup_last [OF assms(1), of n]
  have ne: "?cs \<noteq> []" and key: "key = fst (last ?cs)"
    by (auto split: if_splits)
  from ne have "last ?cs \<in> set ?cs" by (rule last_in_set)
  then have "last ?cs \<in> set logGroups" "declaresName n (snd (last ?cs))"
    by auto
  with key show ?thesis
    by (metis prod.collapse)
qed

subsection \<open>The entries of the template after a successful run\<close>

lemma run_success_entry:
  assumes "result (addCloudwatchPolicy p Resources) = Inr ()"
    and "(key, res) \<in> set (template (addCloudwatchPolicy p Resources))"
  shows "\<exists>res0. (key, res0) \<in> set Resources \<and> key \<notin> markedDuplicates p Resources \<and>
           res = (if key \<in> fst ` set (collectLogGroups Resources)
                  then setPolicy (retainLogs p) (filterDependsOn (markedDuplicates p Resources) res0)
                  else filterDependsOn (markedDuplicates p Resources) res0)"
  using assms
  by (auto simp: run_success applyPolicy_eq purge_eq split: if_splits)

lemma run_success_keys:
  assumes "result (addCloudwatchPolicy p Resources) = Inr ()"
  shows "map fst (template (addCloudwatchPolicy p Resources)) =
           filter (\<lambda>key. key \<notin> markedDuplicates p Resources) (map fst Resources)"
  using assms
  by (simp add: run_success applyPolicy_eq purge_eq filter_map comp_def split_def if_distrib [of fst])

lemma filterDependsOn_fields:
  "Type (filterDependsOn duplicates res) = Type res"
  "Properties (filterDependsOn duplicates res) = Properties res"
  "DeletionPolicy (filterDependsOn duplicates res) = DeletionPolicy res"
  "resource.more (filterDependsOn duplicates res) = resource.more res"
  "dependsOnEntries (filterDependsOn duplicates res) = filter (\<lambda>d. d \<notin> duplicates) (dependsOnEntries res)"
  by (cases "DependsOn res"; simp add: filterDependsOn_def dependsOnEntries_def)+

lemma setPolicy_fields:
  "Type (setPolicy retain res) = Type res"
  "Properties (setPolicy retain res) = Properties res"
  "DependsOn (setPolicy retain res) = DependsOn res"
  "resource.more (setPolicy retain res) = resource.more res"
  "dependsOnEntries (setPolicy retain res) = dependsOnEntries res"
  by (simp_all add: setPolicy_def dependsOnEntries_def)

lemma markedDuplicates_spec: "markedDuplicates specPlugin specTemplate = {''FirstLogGroup''}"
  by (simp add: markedDuplicates_def reportedNames_def collectLogGroups_def duplicateKeys_def
                logGroupNamePrefix_def specPlugin_def specTemplate_def)

lemma markedDuplicates_member:
  assumes "key \<in> markedDuplicates p Resources"
  shows "\<exists>n \<in> set (reportedNames p). \<exists>res. (key, res) \<in> set (collectLogGroups Resources) \<and> declaresName n res"
proof -
  from assms obtain logGroupLookup where
    built: "buildLookup (collectLogGroups Resources) Map.empty = Inr logGroupLookup"
    and key: "key \<in> duplicateKeys logGroupLookup (reportedNames p)"
    by (auto simp: markedDuplicates_def split: if_splits sum.splits)
  from key obtain n where "n \<in> set (reportedNames p)" "logGroupLookup n = Some key"
    by (auto simp: duplicateKeys_eq)
  with buildLookup_range [OF built] show ?thesis by blast
qed

lemma framed_refl: "framed res res"
  by (simp add: framed_def)

lemma framed_filterDependsOn: "framed res (filterDependsOn duplicates res)"
  by (cases "DependsOn res") (simp_all add: framed_def filterDependsOn_def)

lemma framed_setPolicy:
  "framed res res' \<Longrightarrow> Type res = ''AWS::Logs::LogGroup'' \<Longrightarrow> framed res (setPolicy retain res')"
  by (simp add: framed_def setPolicy_def)

lemma setPolicy_idem: "setPolicy retain (setPolicy retain res) = setPolicy retain res"
  by (simp add: setPolicy_def)

lemma run_success_lookup:
  assumes "result (addCloudwatchPolicy p Resources) = Inr ()" and "retainLogs p"
  shows "\<exists>logGroupLookup. buildLookup (collectLogGroups Resources) Map.empty = Inr logGroupLookup"
  using assms
  by (auto simp: addCloudwatchPolicy_def afterDescribeStacks_def removeDuplicateLogGroups_def Let_def
           split: if_splits sum.splits)

lemma run_success_log_group:
  assumes ok: "result (addCloudwatchPolicy p Resources) = Inr ()"
    and there: "(key, res) \<in> set (template (addCloudwatchPolicy p Resources))"
    and type: "Type res = ''AWS::Logs::LogGroup''"
  shows "\<exists>res0. (key, res0) \<in> set (collectLogGroups Resources) \<and> Properties res = Properties res0"
proof -
  from run_success_entry [OF ok there] obtain res0 where
    res0: "(key, res0) \<in> set Resources"
    and res: "res = (if key \<in> fst ` set (collectLogGroups Resources)
                     then setPolicy (retainLogs p) (filterDependsOn (markedDuplicates p Resources) res0)
                     else filterDependsOn (markedDuplicates p Resources) res0)"
    by blast
  from res have "Type res = Type res0" "Properties res = Properties res0"
    by (simp_all add: setPolicy_fields filterDependsOn_fields)
  with type res0 show ?thesis
    by (auto simp: collectLogGroups_def)
qed

lemma candidatesNamed_collect:
  "candidatesNamed n Resources = filter (\<lambda>(key, res). declaresName n res) (collectLogGroups Resources)"
  by (auto simp: candidatesNamed_def collectLogGroups_def intro: filter_cong)

lemma distinct_last_not_butlast:
  assumes "distinct (map fst cs)" and "(key, res) \<in> set (butlast cs)"
  shows "key \<noteq> fst (last cs)"
proof -
  from assms(2) have ne: "cs \<noteq> []" by auto
  then have "cs = butlast cs @ [last cs]" by simp
  then have "map fst cs = map fst (butlast cs) @ [fst (last cs)]"
    by (metis list.simps(8,9) map_append)
  with assms(1) have "fst (last cs) \<notin> set (map fst (butlast cs))"
    by (metis distinct_append disjoint_iff list.set_intros(1))
  moreover from assms(2) have "key \<in> set (map fst (butlast cs))"
    by force
  ultimately show ?thesis by blast
qed

lemma markedDuplicates_keys: "markedDuplicates p Resources \<subseteq> fst ` set Resources"
proof
  fix key
  assume "key \<in> markedDuplicates p Resources"
  from markedDuplicates_member [OF this] obtain res where
    "(key, res) \<in> set (collectLogGroups Resources)"
    by blast
  then have "(key, res) \<in> set Resources"
    by (simp add: collectLogGroups_def)
  then show "key \<in> fst ` set Resources"
    by force
qed

lemma run_success_removed:
  assumes "result (addCloudwatchPolicy p Resources) = Inr ()"
  shows "d \<notin> markedDuplicates p Resources \<longleftrightarrow>
           d \<notin> fst ` set Resources \<or> d \<in> fst ` set (template (addCloudwatchPolicy p Resources))"
proof -
  have "set (map fst (template (addCloudwatchPolicy p Resources))) =
          set (map fst Resources) - markedDuplicates p Resources"
    unfolding run_success_keys [OF assms] by auto
  with markedDuplicates_keys [of p Resources] show ?thesis
    by auto
qed

text \<open>What a rejected \<open>describeStacks\<close> leads to, by the outcome of line 99.\<close>

lemma describeStacks_rejection:
  assumes "providerName p = ''aws''"
    and "describeStacks p (stackName p) = Inl e"
  shows "(stackDoesNotExist e = Inr True \<longrightarrow>
            addCloudwatchPolicy p Resources =
              addCloudwatchPolicy (p\<lparr>describeStacks := (\<lambda>name. Inr ())\<rparr>) Resources) \<and>
         (stackDoesNotExist e = Inr False \<longrightarrow>
            addCloudwatchPolicy p Resources =
              \<lparr>result = Inl (StackQueryError e), template = Resources,
               requests = [DescribeStacks (stackName p)]\<rparr>) \<and>
         (\<forall>thrown. stackDoesNotExist e = Inl thrown \<longrightarrow>
            addCloudwatchPolicy p Resources =
              \<lparr>result = Inl thrown, template = Resources,
               requests = [DescribeStacks (stackName p)]\<rparr>)"
proof -
  let ?q = "p\<lparr>describeStacks := (\<lambda>name. Inr ())\<rparr>"
  have "removeDuplicateLogGroups ?q logGroups Resources = removeDuplicateLogGroups p logGroups Resources"
    for logGroups
    by (simp add: removeDuplicateLogGroups_def logGroupNamePrefix_def split: sum.splits)
  then have "afterDescribeStacks ?q logGroups Resources = afterDescribeStacks p logGroups Resources"
    for logGroups
    by (simp add: afterDescribeStacks_def Let_def split: sum.splits)
  with assms show ?thesis
    by (simp add: addCloudwatchPolicy_def Let_def)
qed

section \<open>The claims\<close>

subsection \<open>Policy on the remaining log groups\<close>

text \<open>
  C3. After a run that completed successfully, every resource of the template whose
  type is that of a log group has the \<open>DeletionPolicy\<close> \<open>Retain\<close> if and only if
  \<open>retainLogs\<close> is set, and \<open>Delete\<close> otherwise.
\<close>

theorem policy_on_remaining_log_groups:
  assumes "result (addCloudwatchPolicy p Resources) = Inr ()"
    and "(key, res) \<in> set (template (addCloudwatchPolicy p Resources))"
    and "Type res = ''AWS::Logs::LogGroup''"
  shows "(DeletionPolicy res = Some ''Retain'' \<longleftrightarrow> retainLogs p) \<and>
         (\<not> retainLogs p \<longrightarrow> DeletionPolicy res = Some ''Delete'')"
proof -
  let ?dups = "markedDuplicates p Resources"
  from assms(1,2)
  have "(key, res) \<in> set (applyPolicy (retainLogs p) (collectLogGroups Resources) (purge ?dups Resources))"
    by (simp add: run_success)
  then obtain res0 where res0: "(key, res0) \<in> set Resources"
    and res: "res = (if key \<in> fst ` set (collectLogGroups Resources)
                     then setPolicy (retainLogs p) (filterDependsOn ?dups res0)
                     else filterDependsOn ?dups res0)"
    by (auto simp: applyPolicy_eq purge_eq split: if_splits)
  have type: "Type res = Type res0"
    using res by (cases "DependsOn res0") (auto simp: setPolicy_def filterDependsOn_def)
  with assms(3) res0 have "key \<in> fst ` set (collectLogGroups Resources)"
    by (force simp: collectLogGroups_def)
  with res have "DeletionPolicy res = Some (if retainLogs p then ''Retain'' else ''Delete'')"
    by (simp add: setPolicy_def)
  then show ?thesis by simp
qed

theorem policy_on_remaining_log_groups_witness:
  "result (addCloudwatchPolicy specPlugin specTemplate) = Inr () \<and>
   (''SecondLogGroup'', secondLogGroupRetained) \<in> set (template (addCloudwatchPolicy specPlugin specTemplate)) \<and>
   Type secondLogGroupRetained = ''AWS::Logs::LogGroup'' \<and>
   retainLogs specPlugin \<and>
   DeletionPolicy secondLogGroupRetained = Some ''Retain'' \<and>
   result (addCloudwatchPolicy doNotRetainPlugin specTemplate) = Inr () \<and>
   (''FirstLogGroup'', firstLogGroupDeleted) \<in> set (template (addCloudwatchPolicy doNotRetainPlugin specTemplate)) \<and>
   Type firstLogGroupDeleted = ''AWS::Logs::LogGroup'' \<and>
   \<not> retainLogs doNotRetainPlugin \<and>
   DeletionPolicy firstLogGroupDeleted = Some ''Delete''"
proof -
  have ok: "result (addCloudwatchPolicy specPlugin specTemplate) = Inr ()"
    by (simp add: specPlugin_run)
  have there: "(''SecondLogGroup'', secondLogGroupRetained) \<in> set (template (addCloudwatchPolicy specPlugin specTemplate))"
    by (simp add: specPlugin_run specTemplateAfter_def secondLogGroupRetained_def)
  have type: "Type secondLogGroupRetained = ''AWS::Logs::LogGroup''"
    by (simp add: secondLogGroupRetained_def)
  have on: "retainLogs specPlugin"
    by (simp add: specPlugin_def)
  have retain: "DeletionPolicy secondLogGroupRetained = Some ''Retain''"
    using policy_on_remaining_log_groups [OF ok there type] on by simp
  have ok': "result (addCloudwatchPolicy doNotRetainPlugin specTemplate) = Inr ()"
    by (simp add: doNotRetainPlugin_run)
  have there': "(''FirstLogGroup'', firstLogGroupDeleted) \<in> set (template (addCloudwatchPolicy doNotRetainPlugin specTemplate))"
    by (simp add: doNotRetainPlugin_run doNotRetainAfter_def firstLogGroupDeleted_def)
  have type': "Type firstLogGroupDeleted = ''AWS::Logs::LogGroup''"
    by (simp add: firstLogGroupDeleted_def)
  have off: "\<not> retainLogs doNotRetainPlugin"
    by (simp add: doNotRetainPlugin_def)
  have delete: "DeletionPolicy firstLogGroupDeleted = Some ''Delete''"
    using policy_on_remaining_log_groups [OF ok' there' type'] off by simp
  show ?thesis
    by (intro conjI ok there type on retain ok' there' type' off delete)
qed

subsection \<open>No deduplication without \<open>retainLogs\<close>\<close>

text \<open>
  C4. When \<open>retainLogs\<close> is false, whatever the inventory would report and however
  the run ends, the template keeps all its keys in their order, every \<open>DependsOn\<close> is
  what it was, and no \<open>describeLogGroups\<close> request is issued.
\<close>

theorem no_purge_without_retainLogs:
  assumes "\<not> retainLogs p"
  shows "map fst (template (addCloudwatchPolicy p Resources)) = map fst Resources \<and>
         map (\<lambda>(key, res). DependsOn res) (template (addCloudwatchPolicy p Resources)) =
           map (\<lambda>(key, res). DependsOn res) Resources \<and>
         (\<forall>pre. DescribeLogGroups pre \<notin> set (requests (addCloudwatchPolicy p Resources)))"
  using assms
  by (auto simp: addCloudwatchPolicy_def afterDescribeStacks_def Let_def applyPolicy_eq setPolicy_def
           split: sum.splits)

theorem no_purge_without_retainLogs_witness:
  "\<not> retainLogs doNotRetainPlugin \<and>
   reportedNames doNotRetainPlugin = [''/aws/lambda/first-log-group''] \<and>
   map fst (template (addCloudwatchPolicy doNotRetainPlugin specTemplate)) = map fst specTemplate \<and>
   map (\<lambda>(key, res). DependsOn res) (template (addCloudwatchPolicy doNotRetainPlugin specTemplate)) =
     map (\<lambda>(key, res). DependsOn res) specTemplate \<and>
   (\<forall>pre. DescribeLogGroups pre \<notin> set (requests (addCloudwatchPolicy doNotRetainPlugin specTemplate)))"
proof -
  have off: "\<not> retainLogs doNotRetainPlugin"
    by (simp add: doNotRetainPlugin_def)
  have names: "reportedNames doNotRetainPlugin = [''/aws/lambda/first-log-group'']"
    by (simp add: reportedNames_def doNotRetainPlugin_def)
  from no_purge_without_retainLogs [OF off, of specTemplate] off names show ?thesis
    by simp
qed

subsection \<open>A rejected \<open>describeStacks\<close>\<close>

text \<open>
  C6. The claim: a rejection of \<open>describeStacks\<close> with status 400 and a message that
  tells that the stack does not exist is a first deployment and no error; with any
  other rejection the run fails with that error and the template is the one supplied.
  The code does not keep the second half. When \<open>describeStacks\<close> is rejected with
  status 400 and a \<open>providerError\<close> that has no \<open>message\<close>, the error is not one that
  tells of a missing stack, yet the run is not rejected with it: the condition of line
  99 throws inside the handler and the run is rejected with that \<open>TypeError\<close>, where
  the handler's comment says that the error is passed on. The template is the one
  supplied and \<open>describeStacks\<close> is the only request.
\<close>

theorem describeStacks_rejection_without_message:
  "providerName noMessagePlugin = ''aws'' \<and>
   describeStacks noMessagePlugin (stackName noMessagePlugin) = Inl noMessageError \<and>
   statusCode noMessageError = Some 400 \<and>
   providerError noMessageError = Some \<lparr>message = None\<rparr> \<and>
   addCloudwatchPolicy noMessagePlugin specTemplate =
     \<lparr>result = Inl TypeError, template = specTemplate,
      requests = [DescribeStacks ''mock-test-stack'']\<rparr> \<and>
   result (addCloudwatchPolicy noMessagePlugin specTemplate) \<noteq> Inl (StackQueryError noMessageError)"
  by (simp add: addCloudwatchPolicy_def noMessagePlugin_def noMessageError_class)
     (simp add: noMessageError_def)

subsection \<open>An unsupported provider\<close>

text \<open>
  C7. When the provider's name is not \<open>aws\<close>, the run is rejected at once with the
  message of the provider check, the template is the one supplied, and no request is
  issued, neither \<open>describeStacks\<close> nor \<open>describeLogGroups\<close>.
\<close>

theorem unsupported_provider_rejected:
  "providerName p \<noteq> ''aws'' \<Longrightarrow>
   addCloudwatchPolicy p Resources =
     \<lparr>result = Inl (UnsupportedProviderError ''Cannot add Cloudwatch Policy to non-aws provider''),
      template = Resources, requests = []\<rparr>"
  by (simp add: addCloudwatchPolicy_def)

theorem unsupported_provider_rejected_witness:
  "providerName azurePlugin \<noteq> ''aws'' \<and>
   addCloudwatchPolicy azurePlugin specTemplate =
     \<lparr>result = Inl (UnsupportedProviderError ''Cannot add Cloudwatch Policy to non-aws provider''),
      template = specTemplate, requests = []\<rparr>"
proof -
  have other: "providerName azurePlugin \<noteq> ''aws''"
    by (simp add: azurePlugin_def)
  from other unsupported_provider_rejected [OF other, of specTemplate] show ?thesis
    by simp
qed

subsection \<open>Order of the requests\<close>

text \<open>
  C9. Under the provider \<open>aws\<close>, whatever \<open>retainLogs\<close> is, the requests of a run are
  \<open>describeStacks\<close> alone or \<open>describeStacks\<close> followed by one \<open>describeLogGroups\<close>:
  the probe is issued exactly once and first. A rejection of the probe that line 99
  does not find to mean a missing stack ends the run before \<open>describeLogGroups\<close> is
  issued. The model
  issues a request only after it has read the answer to the one before, as the chain
  of \<open>then\<close> callbacks does.
\<close>

theorem describeStacks_once_and_first:
  assumes "providerName p = ''aws''"
  shows "(requests (addCloudwatchPolicy p Resources) = [DescribeStacks (stackName p)] \<or>
          requests (addCloudwatchPolicy p Resources) =
            [DescribeStacks (stackName p), DescribeLogGroups (logGroupNamePrefix p)]) \<and>
         ((\<exists>e. describeStacks p (stackName p) = Inl e \<and> stackDoesNotExist e \<noteq> Inr True) \<longrightarrow>
            requests (addCloudwatchPolicy p Resources) = [DescribeStacks (stackName p)])"
  using assms
  by (auto simp: addCloudwatchPolicy_def afterDescribeStacks_def removeDuplicateLogGroups_def Let_def
           split: sum.splits)

theorem describeStacks_once_and_first_witness:
  "providerName specPlugin = ''aws'' \<and>
   requests (addCloudwatchPolicy specPlugin specTemplate) =
     [DescribeStacks (stackName specPlugin), DescribeLogGroups (logGroupNamePrefix specPlugin)]"
proof -
  have aws: "providerName specPlugin = ''aws''"
    by (simp add: specPlugin_def)
  from describeStacks_once_and_first [OF aws, of specTemplate] aws specPlugin_run show ?thesis
    by (simp add: specPlugin_def logGroupNamePrefix_def)
qed

subsection \<open>References to removed resources\<close>

text \<open>
  C1, as stated, fails: a run removes the entries that name a duplicate and no other,
  so an entry that named no resource of the template before the run is still there
  after it. In the template of the test suite both functions depend on
  \<open>LambdaExecutionRole\<close>, which is no key of the template; after the run of the test
  \<open>removes any pre-existing LogGroups\<close> the template is not free of dangling entries.
\<close>

theorem dangling_entry_survives:
  "result (addCloudwatchPolicy specPlugin specTemplate) = Inr () \<and>
   \<not> danglingFree (template (addCloudwatchPolicy specPlugin specTemplate))"
  by (simp add: specPlugin_run specTemplateAfter_def danglingFree_def dependsOnEntries_def)

text \<open>
  C1, amended. After a run that completed successfully, every \<open>DependsOn\<close> sequence
  of a remaining resource is the sequence the resource had before the run, in the same
  order, without the entries that name a removed resource. So every entry that named a
  resource of the template before the run names one after it, and every entry that
  named no resource of the template before the run is still in the sequence. The
  statement is about sequences: a \<open>DependsOn\<close> that is a single name does not pass
  the test of line 68 and is not part of it.
\<close>

theorem dependsOn_loses_removed_names_only:
  assumes ok: "result (addCloudwatchPolicy p Resources) = Inr ()"
    and there: "(key, res') \<in> set (template (addCloudwatchPolicy p Resources))"
    and seq: "DependsOn res' = Names ds'"
  shows "\<exists>res ds. (key, res) \<in> set Resources \<and> DependsOn res = Names ds \<and>
           ds' = filter (\<lambda>d. d \<notin> fst ` set Resources \<or>
                               d \<in> fst ` set (template (addCloudwatchPolicy p Resources))) ds \<and>
           (\<forall>d \<in> set ds'. d \<in> fst ` set Resources \<longrightarrow>
                             d \<in> fst ` set (template (addCloudwatchPolicy p Resources))) \<and>
           (\<forall>d \<in> set ds. d \<notin> fst ` set Resources \<longrightarrow> d \<in> set ds')"
proof -
  let ?dups = "markedDuplicates p Resources"
  let ?after = "template (addCloudwatchPolicy p Resources)"
  from run_success_entry [OF ok there] obtain res where
    res: "(key, res) \<in> set Resources"
    and res': "res' = (if key \<in> fst ` set (collectLogGroups Resources)
                       then setPolicy (retainLogs p) (filterDependsOn ?dups res)
                       else filterDependsOn ?dups res)"
    by blast
  from res' have "DependsOn res' = DependsOn (filterDependsOn ?dups res)"
    by (simp add: setPolicy_fields)
  with seq obtain ds where ds: "DependsOn res = Names ds"
    and ds': "ds' = filter (\<lambda>d. d \<notin> ?dups) ds"
    by (cases "DependsOn res") (auto simp: filterDependsOn_def)
  have kept: "ds' = filter (\<lambda>d. d \<notin> fst ` set Resources \<or> d \<in> fst ` set ?after) ds"
    unfolding ds' by (rule filter_cong [OF refl]) (rule run_success_removed [OF ok])
  have "\<forall>d \<in> set ds'. d \<in> fst ` set Resources \<longrightarrow> d \<in> fst ` set ?after"
    unfolding kept by auto
  moreover have "\<forall>d \<in> set ds. d \<notin> fst ` set Resources \<longrightarrow> d \<in> set ds'"
    unfolding kept by auto
  ultimately show ?thesis
    using res ds kept by blast
qed

theorem dependsOn_loses_removed_names_only_witness:
  "result (addCloudwatchPolicy specPlugin specTemplate) = Inr () \<and>
   (''FirstFunction'', firstFunctionAfter) \<in> set (template (addCloudwatchPolicy specPlugin specTemplate)) \<and>
   DependsOn firstFunctionAfter = Names [''LambdaExecutionRole''] \<and>
   (\<exists>res ds. (''FirstFunction'', res) \<in> set specTemplate \<and> DependsOn res = Names ds \<and>
      [''LambdaExecutionRole''] =
        filter (\<lambda>d. d \<notin> fst ` set specTemplate \<or>
                     d \<in> fst ` set (template (addCloudwatchPolicy specPlugin specTemplate))) ds) \<and>
   (''FirstFunction'', firstFunction) \<in> set specTemplate \<and>
   DependsOn firstFunction = Names [''FirstLogGroup'', ''LambdaExecutionRole''] \<and>
   ''FirstLogGroup'' \<notin> fst ` set (template (addCloudwatchPolicy specPlugin specTemplate)) \<and>
   ''LambdaExecutionRole'' \<notin> fst ` set specTemplate"
proof -
  have ok: "result (addCloudwatchPolicy specPlugin specTemplate) = Inr ()"
    by (simp add: specPlugin_run)
  have there: "(''FirstFunction'', firstFunctionAfter) \<in> set (template (addCloudwatchPolicy specPlugin specTemplate))"
    by (simp add: specPlugin_run specTemplateAfter_def firstFunctionAfter_def)
  have seq: "DependsOn firstFunctionAfter = Names [''LambdaExecutionRole'']"
    by (simp add: firstFunctionAfter_def)
  from dependsOn_loses_removed_names_only [OF ok there seq]
  have after: "\<exists>res ds. (''FirstFunction'', res) \<in> set specTemplate \<and> DependsOn res = Names ds \<and>
      [''LambdaExecutionRole''] =
        filter (\<lambda>d. d \<notin> fst ` set specTemplate \<or>
                     d \<in> fst ` set (template (addCloudwatchPolicy specPlugin specTemplate))) ds"
    by blast
  have before: "(''FirstFunction'', firstFunction) \<in> set specTemplate"
    by (simp add: specTemplate_def firstFunction_def)
  have was: "DependsOn firstFunction = Names [''FirstLogGroup'', ''LambdaExecutionRole'']"
    by (simp add: firstFunction_def)
  have gone: "''FirstLogGroup'' \<notin> fst ` set (template (addCloudwatchPolicy specPlugin specTemplate))"
    by (simp add: specPlugin_run specTemplateAfter_def)
  have dangling: "''LambdaExecutionRole'' \<notin> fst ` set specTemplate"
    by (simp add: specTemplate_def)
  show ?thesis
    by (intro conjI ok there seq after before was gone dangling)
qed

subsection \<open>The purge\<close>

text \<open>
  C5. The purge removes exactly the keys marked as duplicates and keeps the others in
  their order; on every remaining resource, whatever its type, a \<open>DependsOn\<close> sequence
  loses the entries that name a duplicate and keeps the others in their order, and
  nothing else of the resource changes, its \<open>DeletionPolicy\<close> included. The policy is
  applied after the purge: in a run that completes, to the template the purge has
  left; and in a run that does not complete, as when \<open>describeLogGroups\<close> is rejected
  and the purge never runs, to nothing, the template being the one supplied with every
  \<open>DeletionPolicy\<close> as it was.
\<close>

theorem purge_before_policy:
  "map fst (purge duplicates Resources) = filter (\<lambda>key. key \<notin> duplicates) (map fst Resources) \<and>
   purge duplicates Resources =
     map (\<lambda>(key, res).
            (key, case DependsOn res of
                    Names ds \<Rightarrow> res\<lparr>DependsOn := Names (filter (\<lambda>d. d \<notin> duplicates) ds)\<rparr>
                  | _ \<Rightarrow> res))
         (filter (\<lambda>(key, res). key \<notin> duplicates) Resources) \<and>
   map (\<lambda>(key, res). DeletionPolicy res) (purge duplicates Resources) =
     map (\<lambda>(key, res). DeletionPolicy res) (filter (\<lambda>(key, res). key \<notin> duplicates) Resources) \<and>
   (result (addCloudwatchPolicy p Resources) = Inr () \<longrightarrow>
      template (addCloudwatchPolicy p Resources) =
        applyPolicy (retainLogs p) (collectLogGroups Resources)
          (purge (markedDuplicates p Resources) Resources)) \<and>
   (result (addCloudwatchPolicy p Resources) \<noteq> Inr () \<longrightarrow>
      template (addCloudwatchPolicy p Resources) = Resources) \<and>
   (\<forall>e. providerName p = ''aws'' \<and> describeStacks p (stackName p) = Inr () \<and> retainLogs p \<and>
         describeLogGroups p (logGroupNamePrefix p) = Inl e \<longrightarrow>
         result (addCloudwatchPolicy p Resources) \<noteq> Inr ())"
proof (intro conjI impI allI)
  show "map fst (purge duplicates Resources) = filter (\<lambda>key. key \<notin> duplicates) (map fst Resources)"
    by (simp add: purge_eq filter_map comp_def split_def)
  show "purge duplicates Resources =
     map (\<lambda>(key, res).
            (key, case DependsOn res of
                    Names ds \<Rightarrow> res\<lparr>DependsOn := Names (filter (\<lambda>d. d \<notin> duplicates) ds)\<rparr>
                  | _ \<Rightarrow> res))
         (filter (\<lambda>(key, res). key \<notin> duplicates) Resources)"
    by (simp add: purge_eq filterDependsOn_def [abs_def])
  show "map (\<lambda>(key, res). DeletionPolicy res) (purge duplicates Resources) =
     map (\<lambda>(key, res). DeletionPolicy res) (filter (\<lambda>(key, res). key \<notin> duplicates) Resources)"
    by (simp add: purge_eq split_def comp_def filterDependsOn_fields)
  show "template (addCloudwatchPolicy p Resources) =
        applyPolicy (retainLogs p) (collectLogGroups Resources)
          (purge (markedDuplicates p Resources) Resources)"
    if "result (addCloudwatchPolicy p Resources) = Inr ()"
    using that by (rule run_success)
  show "template (addCloudwatchPolicy p Resources) = Resources"
    if "result (addCloudwatchPolicy p Resources) \<noteq> Inr ()"
  proof (cases "result (addCloudwatchPolicy p Resources)")
    case (Inl e)
    then show ?thesis by (rule run_failure)
  next
    case (Inr u)
    with that show ?thesis by simp
  qed
  show "result (addCloudwatchPolicy p Resources) \<noteq> Inr ()"
    if "providerName p = ''aws'' \<and> describeStacks p (stackName p) = Inr () \<and> retainLogs p \<and>
         describeLogGroups p (logGroupNamePrefix p) = Inl e" for e
    using that
    by (auto simp: addCloudwatchPolicy_def afterDescribeStacks_def removeDuplicateLogGroups_def Let_def
             split: sum.splits)
qed

theorem purge_before_policy_witness:
  "result (addCloudwatchPolicy specPlugin specTemplate) = Inr () \<and>
   markedDuplicates specPlugin specTemplate = {''FirstLogGroup''} \<and>
   map fst (purge {''FirstLogGroup''} specTemplate) = [''SecondLogGroup'', ''FirstFunction'', ''SecondFunction''] \<and>
   template (addCloudwatchPolicy specPlugin specTemplate) =
     applyPolicy (retainLogs specPlugin) (collectLogGroups specTemplate)
       (purge (markedDuplicates specPlugin specTemplate) specTemplate) \<and>
   providerName brokenInventoryPlugin = ''aws'' \<and>
   describeStacks brokenInventoryPlugin (stackName brokenInventoryPlugin) = Inr () \<and>
   retainLogs brokenInventoryPlugin \<and>
   describeLogGroups brokenInventoryPlugin (logGroupNamePrefix brokenInventoryPlugin) = Inl serverError \<and>
   result (addCloudwatchPolicy brokenInventoryPlugin specTemplate) \<noteq> Inr () \<and>
   template (addCloudwatchPolicy brokenInventoryPlugin specTemplate) = specTemplate"
proof -
  have ok: "result (addCloudwatchPolicy specPlugin specTemplate) = Inr ()"
    by (simp add: specPlugin_run)
  note T = purge_before_policy [of "{''FirstLogGroup''}" specTemplate specPlugin]
  have keys: "map fst (purge {''FirstLogGroup''} specTemplate) = [''SecondLogGroup'', ''FirstFunction'', ''SecondFunction'']"
    using T by (simp add: specTemplate_def)
  have order: "template (addCloudwatchPolicy specPlugin specTemplate) =
     applyPolicy (retainLogs specPlugin) (collectLogGroups specTemplate)
       (purge (markedDuplicates specPlugin specTemplate) specTemplate)"
    using T ok by blast
  note U = purge_before_policy [of "{}" specTemplate brokenInventoryPlugin]
  have aws: "providerName brokenInventoryPlugin = ''aws''"
    and stack: "describeStacks brokenInventoryPlugin (stackName brokenInventoryPlugin) = Inr ()"
    and retain: "retainLogs brokenInventoryPlugin"
    and rejected: "describeLogGroups brokenInventoryPlugin (logGroupNamePrefix brokenInventoryPlugin) = Inl serverError"
    by (simp_all add: brokenInventoryPlugin_def)
  from U aws stack retain rejected
  have failed: "result (addCloudwatchPolicy brokenInventoryPlugin specTemplate) \<noteq> Inr ()"
    by blast
  with U have untouched: "template (addCloudwatchPolicy brokenInventoryPlugin specTemplate) = specTemplate"
    by blast
  show ?thesis
    by (intro conjI ok markedDuplicates_spec keys order aws stack retain rejected failed untouched)
qed

subsection \<open>Frame\<close>

text \<open>
  C10. On a template whose keys are distinct, as the keys of an object are, and
  however the run ends: the keys after the run are a subsequence of the keys before,
  so no resource is added; every remaining resource is the resource that was under its
  key, except that a \<open>DependsOn\<close> sequence may have lost entries and that, on a log
  group, the \<open>DeletionPolicy\<close> may differ; and a resource that is gone was a log group
  declaring a name the inventory reported.
\<close>

theorem only_matched_log_groups_change:
  assumes "distinct (map fst Resources)"
  shows "subseq (map fst (template (addCloudwatchPolicy p Resources))) (map fst Resources) \<and>
         (\<forall>(key, res') \<in> set (template (addCloudwatchPolicy p Resources)).
            \<exists>res. (key, res) \<in> set Resources \<and> framed res res') \<and>
         (\<forall>(key, res) \<in> set Resources.
            key \<notin> fst ` set (template (addCloudwatchPolicy p Resources)) \<longrightarrow>
            Type res = ''AWS::Logs::LogGroup'' \<and> (\<exists>n \<in> set (reportedNames p). declaresName n res))"
proof (cases "result (addCloudwatchPolicy p Resources)")
  case (Inl e)
  then have "template (addCloudwatchPolicy p Resources) = Resources"
    by (rule run_failure)
  then show ?thesis
    by (auto intro: framed_refl rev_image_eqI)
next
  case (Inr u)
  then have ok: "result (addCloudwatchPolicy p Resources) = Inr ()" by simp
  let ?after = "template (addCloudwatchPolicy p Resources)"
  let ?dups = "markedDuplicates p Resources"
  have keys: "map fst ?after = filter (\<lambda>key. key \<notin> ?dups) (map fst Resources)"
    by (rule run_success_keys [OF ok])
  have collected: "res = res0 \<and> Type res0 = ''AWS::Logs::LogGroup''"
    if "(key, res) \<in> set (collectLogGroups Resources)" "(key, res0) \<in> set Resources" for key res res0
  proof -
    from that(1) have "(key, res) \<in> set Resources" "Type res = ''AWS::Logs::LogGroup''"
      by (auto simp: collectLogGroups_def)
    with that(2) assms show ?thesis
      by (auto dest: eq_key_imp_eq_value)
  qed
  have "subseq (map fst ?after) (map fst Resources)"
    by (simp add: keys)
  moreover have "\<exists>res. (key, res) \<in> set Resources \<and> framed res res'"
    if "(key, res') \<in> set ?after" for key res'
  proof -
    from run_success_entry [OF ok that] obtain res0 where
      res0: "(key, res0) \<in> set Resources"
      and res': "res' = (if key \<in> fst ` set (collectLogGroups Resources)
                         then setPolicy (retainLogs p) (filterDependsOn ?dups res0)
                         else filterDependsOn ?dups res0)"
      by blast
    have "framed res0 res'"
    proof (cases "key \<in> fst ` set (collectLogGroups Resources)")
      case True
      then obtain res where "(key, res) \<in> set (collectLogGroups Resources)" by auto
      from collected [OF this res0] have "Type res0 = ''AWS::Logs::LogGroup''" by simp
      with True res' show ?thesis
        by (simp add: framed_setPolicy framed_filterDependsOn)
    next
      case False
      with res' show ?thesis by (simp add: framed_filterDependsOn)
    qed
    with res0 show ?thesis by blast
  qed
  moreover have "Type res = ''AWS::Logs::LogGroup'' \<and> (\<exists>n \<in> set (reportedNames p). declaresName n res)"
    if "(key, res) \<in> set Resources" "key \<notin> fst ` set ?after" for key res
  proof -
    from that(1) have "key \<in> set (map fst Resources)" by force
    moreover from that(2) have "key \<notin> set (map fst ?after)" by simp
    ultimately have "key \<in> ?dups"
      unfolding keys by simp
    from markedDuplicates_member [OF this] obtain n res1 where
      n: "n \<in> set (reportedNames p)"
      and res1: "(key, res1) \<in> set (collectLogGroups Resources)" "declaresName n res1"
      by blast
    from collected [OF res1(1) that(1)] res1(2) n show ?thesis by auto
  qed
  ultimately show ?thesis by blast
qed

theorem only_matched_log_groups_change_witness:
  "distinct (map fst specTemplate) \<and>
   subseq (map fst (template (addCloudwatchPolicy specPlugin specTemplate))) (map fst specTemplate) \<and>
   (''FirstFunction'', firstFunctionAfter) \<in> set (template (addCloudwatchPolicy specPlugin specTemplate)) \<and>
   (\<exists>res. (''FirstFunction'', res) \<in> set specTemplate \<and> framed res firstFunctionAfter) \<and>
   (''FirstLogGroup'', firstLogGroup) \<in> set specTemplate \<and>
   ''FirstLogGroup'' \<notin> fst ` set (template (addCloudwatchPolicy specPlugin specTemplate)) \<and>
   Type firstLogGroup = ''AWS::Logs::LogGroup'' \<and>
   (\<exists>n \<in> set (reportedNames specPlugin). declaresName n firstLogGroup)"
proof -
  have keys: "distinct (map fst specTemplate)"
    by (simp add: specTemplate_def)
  note T = only_matched_log_groups_change [OF keys, of specPlugin]
  have kept: "(''FirstFunction'', firstFunctionAfter) \<in> set (template (addCloudwatchPolicy specPlugin specTemplate))"
    by (simp add: specPlugin_run specTemplateAfter_def firstFunctionAfter_def)
  have was: "(''FirstLogGroup'', firstLogGroup) \<in> set specTemplate"
    by (simp add: specTemplate_def firstLogGroup_def)
  have gone: "''FirstLogGroup'' \<notin> fst ` set (template (addCloudwatchPolicy specPlugin specTemplate))"
    by (simp add: specPlugin_run specTemplateAfter_def)
  from T have "subseq (map fst (template (addCloudwatchPolicy specPlugin specTemplate))) (map fst specTemplate)"
    by blast
  moreover from T kept have "\<exists>res. (''FirstFunction'', res) \<in> set specTemplate \<and> framed res firstFunctionAfter"
    by blast
  moreover from T was gone
  have "Type firstLogGroup = ''AWS::Logs::LogGroup'' \<and> (\<exists>n \<in> set (reportedNames specPlugin). declaresName n firstLogGroup)"
    by blast
  ultimately show ?thesis
    using keys kept was gone by blast
qed


subsection \<open>A second run\<close>

text \<open>
  C8. Let a first run complete successfully, and let a plugin with the same
  \<open>retainLogs\<close> run on the template it left, with an inventory that reports no name
  declared by a remaining log group (it may report the names of the removed ones).
  The template after the second run is the template after the first. The second run
  completes successfully when its two requests are fulfilled.
\<close>

theorem second_run_changes_nothing:
  assumes first: "result (addCloudwatchPolicy p Resources) = Inr ()"
    and same: "retainLogs q = retainLogs p"
    and inventory: "\<forall>(key, res) \<in> set (template (addCloudwatchPolicy p Resources)).
                      Type res = ''AWS::Logs::LogGroup'' \<longrightarrow>
                      (\<forall>n \<in> set (reportedNames q). \<not> declaresName n res)"
  shows "template (addCloudwatchPolicy q (template (addCloudwatchPolicy p Resources))) =
           template (addCloudwatchPolicy p Resources) \<and>
         (providerName q = ''aws'' \<and> describeStacks q (stackName q) = Inr () \<and>
          (\<exists>existingLogs. describeLogGroups q (logGroupNamePrefix q) = Inr existingLogs) \<longrightarrow>
          result (addCloudwatchPolicy q (template (addCloudwatchPolicy p Resources))) = Inr ())"
proof (intro conjI impI)
  let ?first = "template (addCloudwatchPolicy p Resources)"
  let ?second = "addCloudwatchPolicy q ?first"
  have collected: "(key, res) \<in> set ?first \<and> Type res = ''AWS::Logs::LogGroup''"
    if "(key, res) \<in> set (collectLogGroups ?first)" for key res
    using that by (auto simp: collectLogGroups_def)
  have none: "markedDuplicates q ?first = {}"
  proof (rule ccontr)
    assume "markedDuplicates q ?first \<noteq> {}"
    then obtain key where "key \<in> markedDuplicates q ?first" by blast
    from markedDuplicates_member [OF this] obtain n res where
      "n \<in> set (reportedNames q)" "(key, res) \<in> set (collectLogGroups ?first)" "declaresName n res"
      by blast
    with collected inventory show False by blast
  qed
  have written: "setPolicy (retainLogs p) res = res"
    if there: "(key, res) \<in> set ?first" and key: "key \<in> fst ` set (collectLogGroups ?first)" for key res
  proof -
    from key obtain res1 where "(key, res1) \<in> set (collectLogGroups ?first)" by auto
    with collected have "(key, res1) \<in> set ?first" "Type res1 = ''AWS::Logs::LogGroup''"
      by blast+
    from run_success_log_group [OF first this]
    have "key \<in> fst ` set (collectLogGroups Resources)" by force
    with run_success_entry [OF first there] show ?thesis
      by (auto simp: setPolicy_idem)
  qed
  show "template ?second = ?first"
  proof (cases "result ?second")
    case (Inl e)
    then show ?thesis by (rule run_failure)
  next
    case (Inr u)
    then have "result ?second = Inr ()" by simp
    then have "template ?second = applyPolicy (retainLogs p) (collectLogGroups ?first) ?first"
      by (simp add: run_success none purge_empty same)
    also have "\<dots> = ?first"
      unfolding applyPolicy_eq
      by (rule map_idI) (auto simp: written)
    finally show ?thesis .
  qed
  show "result ?second = Inr ()"
    if queries: "providerName q = ''aws'' \<and> describeStacks q (stackName q) = Inr () \<and>
          (\<exists>existingLogs. describeLogGroups q (logGroupNamePrefix q) = Inr existingLogs)"
  proof (cases "retainLogs q")
    case False
    with queries show ?thesis
      by (simp add: addCloudwatchPolicy_def afterDescribeStacks_def Let_def)
  next
    case True
    with same have "retainLogs p" by simp
    from run_success_lookup [OF first this] obtain logGroupLookup where
      built: "buildLookup (collectLogGroups Resources) Map.empty = Inr logGroupLookup"
      by blast
    have "Properties res \<noteq> None" if "(key, res) \<in> set (collectLogGroups ?first)" for key res
    proof -
      from that collected have "(key, res) \<in> set ?first" "Type res = ''AWS::Logs::LogGroup''"
        by blast+
      from run_success_log_group [OF first this] obtain res0 where
        "(key, res0) \<in> set (collectLogGroups Resources)" "Properties res = Properties res0"
        by blast
      with buildLookup_Properties [OF built] show ?thesis by force
    qed
    then have "\<forall>(key, res) \<in> set (collectLogGroups ?first). Properties res \<noteq> None"
      by blast
    from buildLookup_succeeds [OF this, of Map.empty] obtain logGroupLookup' where
      "buildLookup (collectLogGroups ?first) Map.empty = Inr logGroupLookup'"
      by blast
    with queries True show ?thesis
      by (auto simp: addCloudwatchPolicy_def afterDescribeStacks_def removeDuplicateLogGroups_def Let_def)
  qed
qed

theorem second_run_changes_nothing_witness:
  "result (addCloudwatchPolicy specPlugin specTemplate) = Inr () \<and>
   template (addCloudwatchPolicy specPlugin specTemplate) = specTemplateAfter \<and>
   reportedNames specPlugin = [''/aws/lambda/first-log-group''] \<and>
   template (addCloudwatchPolicy specPlugin specTemplateAfter) = specTemplateAfter \<and>
   result (addCloudwatchPolicy specPlugin specTemplateAfter) = Inr ()"
proof -
  have ok: "result (addCloudwatchPolicy specPlugin specTemplate) = Inr ()"
    and after: "template (addCloudwatchPolicy specPlugin specTemplate) = specTemplateAfter"
    by (simp_all add: specPlugin_run)
  have names: "reportedNames specPlugin = [''/aws/lambda/first-log-group'']"
    by (simp add: reportedNames_def specPlugin_def)
  have inventory: "\<forall>(key, res) \<in> set (template (addCloudwatchPolicy specPlugin specTemplate)).
                      Type res = ''AWS::Logs::LogGroup'' \<longrightarrow>
                      (\<forall>n \<in> set (reportedNames specPlugin). \<not> declaresName n res)"
    by (simp add: after names specTemplateAfter_def declaresName_def)
  have queries: "providerName specPlugin = ''aws'' \<and> describeStacks specPlugin (stackName specPlugin) = Inr () \<and>
          (\<exists>existingLogs. describeLogGroups specPlugin (logGroupNamePrefix specPlugin) = Inr existingLogs)"
    by (simp add: specPlugin_def)
  note T = second_run_changes_nothing [OF ok refl inventory]
  from T have same: "template (addCloudwatchPolicy specPlugin specTemplateAfter) = specTemplateAfter"
    by (simp add: after)
  from T queries have again: "result (addCloudwatchPolicy specPlugin specTemplateAfter) = Inr ()"
    by (simp add: after)
  show ?thesis
    by (intro conjI ok after names same again)
qed

subsection \<open>Log groups that declare the same name\<close>

text \<open>
  C2, as stated, fails: the lookup of lines 43 to 46 holds one key for a name, that of
  the log group collected last, so of two log groups with one name only the second is
  marked and removed. On the template with \<open>FirstLogGroup\<close> and \<open>SecondLogGroup\<close>
  declaring the name the inventory reports, the run completes and \<open>FirstLogGroup\<close>
  is still in the template.
\<close>

theorem earlier_twin_is_kept:
  "retainLogs twinPlugin \<and>
   reportedNames twinPlugin = [''/aws/lambda/shared-log-group''] \<and>
   map fst (candidatesNamed ''/aws/lambda/shared-log-group'' twinTemplate) =
     [''FirstLogGroup'', ''SecondLogGroup''] \<and>
   result (addCloudwatchPolicy twinPlugin twinTemplate) = Inr () \<and>
   map fst (template (addCloudwatchPolicy twinPlugin twinTemplate)) = [''FirstLogGroup'']"
  by (simp add: twinPlugin_run twin_candidates twinTemplateAfter_def)
     (simp add: twinPlugin_def reportedNames_def)

text \<open>
  C2, amended. On a template whose keys are distinct, when \<open>retainLogs\<close> is set, the
  run completes successfully and the inventory reports a name, other than
  \<open>__proto__\<close>, that one or more log groups declare: the one of them that is last in
  the template's order is removed, and every earlier one stays in the template.
\<close>

theorem last_declared_candidate_removed:
  assumes keys: "distinct (map fst Resources)"
    and ok: "result (addCloudwatchPolicy p Resources) = Inr ()"
    and retain: "retainLogs p"
    and reported: "n \<in> set (reportedNames p)"
    and name: "n \<noteq> ''__proto__''"
    and declared: "candidatesNamed n Resources \<noteq> []"
  shows "fst (last (candidatesNamed n Resources)) \<notin> fst ` set (template (addCloudwatchPolicy p Resources)) \<and>
         (\<forall>(key, res) \<in> set (butlast (candidatesNamed n Resources)).
            key \<in> fst ` set (template (addCloudwatchPolicy p Resources)))"
proof (intro conjI ballI)
  let ?after = "template (addCloudwatchPolicy p Resources)"
  let ?dups = "markedDuplicates p Resources"
  let ?cs = "candidatesNamed n Resources"
  from run_success_lookup [OF ok retain] obtain logGroupLookup where
    built: "buildLookup (collectLogGroups Resources) Map.empty = Inr logGroupLookup"
    by blast
  have dups: "?dups = {key. \<exists>n \<in> set (reportedNames p). logGroupLookup n = Some key}"
    by (simp add: markedDuplicates_def retain built duplicateKeys_eq)
  have after: "set (map fst ?after) = set (map fst Resources) - ?dups"
    unfolding run_success_keys [OF ok] by auto
  have found: "logGroupLookup n = Some (fst (last ?cs))"
    using buildLookup_last [OF built, of n] name declared
    by (simp add: candidatesNamed_collect)
  with reported have "fst (last ?cs) \<in> ?dups"
    unfolding dups by blast
  with after show "fst (last ?cs) \<notin> fst ` set ?after"
    by auto
  fix entry
  assume entry: "entry \<in> set (butlast ?cs)"
  obtain key res where kr: "entry = (key, res)" by (cases entry)
  from entry kr have inb: "(key, res) \<in> set (butlast ?cs)" by simp
  then have "(key, res) \<in> set ?cs" by (rule in_set_butlastD)
  then have res: "(key, res) \<in> set Resources" "declaresName n res"
    by (auto simp: candidatesNamed_def)
  have "distinct (map fst ?cs)"
    unfolding candidatesNamed_def using keys by (rule distinct_map_filter)
  from distinct_last_not_butlast [OF this inb] have differs: "key \<noteq> fst (last ?cs)" .
  have "key \<notin> ?dups"
  proof
    assume "key \<in> ?dups"
    then obtain n' where n': "n' \<in> set (reportedNames p)" "logGroupLookup n' = Some key"
      unfolding dups by blast
    from buildLookup_range [OF built n'(2)] obtain res' where
      res': "(key, res') \<in> set (collectLogGroups Resources)" "declaresName n' res'"
      by blast
    then have "(key, res') \<in> set Resources" by (simp add: collectLogGroups_def)
    from keys this res(1) have "res' = res" by (rule eq_key_imp_eq_value)
    with res(2) res'(2) have "n' = n"
      by (auto simp: declaresName_def split: option.splits)
    with n'(2) found differs show False by simp
  qed
  with res(1) have "key \<in> set (map fst Resources) - ?dups" by force
  with after have "key \<in> fst ` set ?after" by simp
  with kr show "case entry of (key, res) \<Rightarrow> key \<in> fst ` set ?after" by simp
qed

theorem last_declared_candidate_removed_witness:
  "distinct (map fst twinTemplate) \<and>
   result (addCloudwatchPolicy twinPlugin twinTemplate) = Inr () \<and>
   retainLogs twinPlugin \<and>
   ''/aws/lambda/shared-log-group'' \<in> set (reportedNames twinPlugin) \<and>
   ''/aws/lambda/shared-log-group'' \<noteq> ''__proto__'' \<and>
   map fst (candidatesNamed ''/aws/lambda/shared-log-group'' twinTemplate) = [''FirstLogGroup'', ''SecondLogGroup''] \<and>
   ''SecondLogGroup'' \<notin> fst ` set (template (addCloudwatchPolicy twinPlugin twinTemplate)) \<and>
   ''FirstLogGroup'' \<in> fst ` set (template (addCloudwatchPolicy twinPlugin twinTemplate))"
proof -
  let ?n = "''/aws/lambda/shared-log-group''"
  have keys: "distinct (map fst twinTemplate)"
    by (simp add: twinTemplate_def)
  have ok: "result (addCloudwatchPolicy twinPlugin twinTemplate) = Inr ()"
    by (simp add: twinPlugin_run)
  have retain: "retainLogs twinPlugin"
    by (simp add: twinPlugin_def)
  have reported: "?n \<in> set (reportedNames twinPlugin)"
    by (simp add: reportedNames_def twinPlugin_def)
  have name: "?n \<noteq> ''__proto__''"
    by simp
  have cs: "candidatesNamed ?n twinTemplate = twinTemplate"
    by (simp add: candidatesNamed_def declaresName_def twinTemplate_def)
  then have declared: "candidatesNamed ?n twinTemplate \<noteq> []"
    by (simp add: twinTemplate_def)
  note T = last_declared_candidate_removed [OF keys ok retain reported name declared]
  from T have gone: "''SecondLogGroup'' \<notin> fst ` set (template (addCloudwatchPolicy twinPlugin twinTemplate))"
    unfolding cs by (simp add: twinTemplate_def)
  from T have kept: "''FirstLogGroup'' \<in> fst ` set (template (addCloudwatchPolicy twinPlugin twinTemplate))"
    unfolding cs by (simp add: twinTemplate_def)
  show ?thesis
    by (intro conjI keys ok retain reported name twin_candidates gone kept)
qed

end
